theory Spec2Isabelle
  imports Complex_Main
begin

section \<open>Data model\<close>

text \<open>
  The class \<open>FIS\<close> of \<^verbatim>\<open>src/FIS.py\<close> wraps a fuzzylite engine. Python numbers
  (\<open>Union[int, float]\<close>) are modelled as \<open>real\<close>, so that \<open>/\<close> is true division and
  the arithmetic is exact. A value slot of a variable may hold fuzzylite's \<open>nan\<close>,
  which is \<open>None\<close> here.
\<close>

text \<open>
  The exceptions the code can raise. \<open>MissingTermSpecification\<close> and
  \<open>DuplicateVariableName\<close> are the two \<open>ValueError\<close>s the source raises itself;
  \<open>ZeroDivisionError\<close>, \<open>IndexError\<close>, \<open>AttributeError\<close> and \<open>TypeError\<close> are raised
  by the interpreter; \<open>RuleCompilationError\<close> and \<open>EngineError\<close> stand for whatever
  the fuzzylite calls \<open>Rule.create\<close>, \<open>Engine.process\<close> and \<open>Engine.input_variable\<close>
  propagate. \<open>InputCountMismatch\<close> and \<open>InvalidShapeKind\<close> are kinds named by the
  specification; no path of the source raises them.
\<close>

datatype error =
    MissingTermSpecification
  | DuplicateVariableName
  | ZeroDivisionError
  | IndexError
  | AttributeError
  | TypeError
  | RuleCompilationError
  | EngineError
  | InputCountMismatch
  | InvalidShapeKind

text \<open>The three term classes the synthesizers construct: name, then parameters.\<close>

datatype mf_term =
    Triangle string real real real
  | Trapezoid string real real real real
  | Gaussian string real real

section \<open>Membership-function synthesizers\<close>

text \<open>
  Each synthesizer computes \<open>n\<close>, \<open>range_size\<close> and \<open>step\<close>, then loops over
  \<open>enumerate(labels)\<close>. The body of the loop is a function of the index and the label;
  the loop is a recursion over the remaining labels that carries the index. With no
  label \<open>range_size / n\<close> raises \<open>ZeroDivisionError\<close>.
\<close>

definition triangular_body ::
  "nat \<Rightarrow> real \<Rightarrow> real \<Rightarrow> real \<Rightarrow> real \<Rightarrow> nat \<Rightarrow> string \<Rightarrow> mf_term" where
  "triangular_body n minimum maximum step overlap i label =
     (if i = 0 then
        (let a = minimum; b = minimum; c = minimum + step * (1 + overlap)
         in Triangle label a b c)
      else if i = n - 1 then
        (let a = minimum + step * (real i - overlap); b = maximum; c = maximum
         in Triangle label a b c)
      else
        (let a = minimum + step * (real i + 0 - overlap);
             c = minimum + step * (real i + 1 + overlap);
             b = 0.5 * (c + a)
         in Triangle label a b c))"

fun triangular_loop ::
  "nat \<Rightarrow> real \<Rightarrow> real \<Rightarrow> real \<Rightarrow> real \<Rightarrow> nat \<Rightarrow> string list \<Rightarrow> mf_term list" where
  "triangular_loop n minimum maximum step overlap i [] = []"
| "triangular_loop n minimum maximum step overlap i (label # rest) =
     triangular_body n minimum maximum step overlap i label
       # triangular_loop n minimum maximum step overlap (Suc i) rest"

definition create_triangular_mf ::
  "string list \<Rightarrow> real \<Rightarrow> real \<Rightarrow> real \<Rightarrow> error + mf_term list" where
  "create_triangular_mf labels minimum maximum overlap =
     (let n = length labels; range_size = maximum - minimum
      in if n = 0 then Inl ZeroDivisionError
         else (let step = range_size / real n
               in Inr (triangular_loop n minimum maximum step overlap 0 labels)))"

definition trapezoid_body ::
  "nat \<Rightarrow> real \<Rightarrow> real \<Rightarrow> real \<Rightarrow> real \<Rightarrow> real \<Rightarrow> nat \<Rightarrow> string \<Rightarrow> mf_term" where
  "trapezoid_body n minimum maximum step ratio overlap i label =
     (if i = 0 then
        (let a = minimum; b = minimum; d = minimum + step * (1 + overlap);
             half_top = ratio * (d - a);
             c = minimum + half_top
         in Trapezoid label a b c d)
      else if i = n - 1 then
        (let a = minimum + step * (real i - overlap); c = maximum; d = maximum;
             b = (a + d) * ratio
         in Trapezoid label a b c d)
      else
        (let a = minimum + step * (real i + 0 - overlap);
             d = minimum + step * (real i + 1 + overlap);
             mid = (d + a) * 0.5;
             half_top = ratio * (d - a) * 0.5;
             b = mid - half_top;
             c = mid + half_top
         in Trapezoid label a b c d))"

fun trapezoid_loop ::
  "nat \<Rightarrow> real \<Rightarrow> real \<Rightarrow> real \<Rightarrow> real \<Rightarrow> real \<Rightarrow> nat \<Rightarrow> string list \<Rightarrow> mf_term list" where
  "trapezoid_loop n minimum maximum step ratio overlap i [] = []"
| "trapezoid_loop n minimum maximum step ratio overlap i (label # rest) =
     trapezoid_body n minimum maximum step ratio overlap i label
       # trapezoid_loop n minimum maximum step ratio overlap (Suc i) rest"

definition create_trapezoid_mf ::
  "string list \<Rightarrow> real \<Rightarrow> real \<Rightarrow> real \<Rightarrow> real \<Rightarrow> error + mf_term list" where
  "create_trapezoid_mf labels minimum maximum ratio overlap =
     (let n = length labels; range_size = maximum - minimum
      in if n = 0 then Inl ZeroDivisionError
         else (let step = range_size / real n
               in Inr (trapezoid_loop n minimum maximum step ratio overlap 0 labels)))"

definition gaussian_body ::
  "nat \<Rightarrow> real \<Rightarrow> real \<Rightarrow> real \<Rightarrow> real \<Rightarrow> nat \<Rightarrow> string \<Rightarrow> mf_term" where
  "gaussian_body n minimum maximum step overlap i label =
     (if i = 0 then
        (let c = minimum + step * (1 + overlap);
             mean = minimum;
             std_dev = (mean - c) / 3
         in Gaussian label mean std_dev)
      else if i = n - 1 then
        (let a = minimum + step * (real i - overlap);
             mean = maximum;
             std_dev = (mean - a) / 3
         in Gaussian label mean std_dev)
      else
        (let a = minimum + step * (real i + 0 - overlap);
             c = minimum + step * (real i + 1 + overlap);
             b = 0.5 * (c + a);
             mean = b;
             std_dev = (mean - c) / 3
         in Gaussian label mean std_dev))"

fun gaussian_loop ::
  "nat \<Rightarrow> real \<Rightarrow> real \<Rightarrow> real \<Rightarrow> real \<Rightarrow> nat \<Rightarrow> string list \<Rightarrow> mf_term list" where
  "gaussian_loop n minimum maximum step overlap i [] = []"
| "gaussian_loop n minimum maximum step overlap i (label # rest) =
     gaussian_body n minimum maximum step overlap i label
       # gaussian_loop n minimum maximum step overlap (Suc i) rest"

definition create_gaussian_mf ::
  "string list \<Rightarrow> real \<Rightarrow> real \<Rightarrow> real \<Rightarrow> error + mf_term list" where
  "create_gaussian_mf labels minimum maximum overlap =
     (let n = length labels; range_size = maximum - minimum
      in if n = 0 then Inl ZeroDivisionError
         else (let step = range_size / real n
               in Inr (gaussian_loop n minimum maximum step overlap 0 labels)))"

text \<open>
  The property of claim C2: the parameter tuple of a term reads left to right without
  ever decreasing. A Gaussian term has no breakpoints.
\<close>

fun nondecreasing :: "mf_term \<Rightarrow> bool" where
  "nondecreasing (Triangle label a b c) = (a \<le> b \<and> b \<le> c)"
| "nondecreasing (Trapezoid label a b c d) = (a \<le> b \<and> b \<le> c \<and> c \<le> d)"
| "nondecreasing (Gaussian label mean std_dev) = True"

section \<open>Variables\<close>

text \<open>
  The fuzzylite objects the source builds and reads, with the attributes it touches.
  An operator object (norm, activation, defuzzifier) is its class name; Python's
  \<open>None\<close> for it is \<open>None\<close>. A new variable has the value \<open>nan\<close>.
\<close>

type_synonym operator = string

record variable =
  var_name :: string
  var_description :: string
  var_enabled :: bool
  var_minimum :: real
  var_maximum :: real
  var_lock_range :: bool
  var_terms :: "mf_term list"
  var_value :: "real option"

record output_variable = variable +
  var_aggregation :: "operator option"
  var_defuzzifier :: "operator option"

definition InputVariable ::
  "string \<Rightarrow> string \<Rightarrow> bool \<Rightarrow> real \<Rightarrow> real \<Rightarrow> bool \<Rightarrow> mf_term list \<Rightarrow> variable" where
  "InputVariable name description enabled minimum maximum lock_range terms =
     \<lparr>var_name = name, var_description = description, var_enabled = enabled,
      var_minimum = minimum, var_maximum = maximum, var_lock_range = lock_range,
      var_terms = terms, var_value = None\<rparr>"

definition OutputVariable ::
  "string \<Rightarrow> string \<Rightarrow> bool \<Rightarrow> real \<Rightarrow> real \<Rightarrow> bool \<Rightarrow> operator option \<Rightarrow> operator option \<Rightarrow>
   mf_term list \<Rightarrow> output_variable" where
  "OutputVariable name description enabled minimum maximum lock_range aggregation
       defuzzifier terms =
     \<lparr>var_name = name, var_description = description, var_enabled = enabled,
      var_minimum = minimum, var_maximum = maximum, var_lock_range = lock_range,
      var_terms = terms, var_value = None,
      var_aggregation = aggregation, var_defuzzifier = defuzzifier\<rparr>"

text \<open>
  \<open>create_input_variable\<close> and \<open>create_output_variable\<close>: a chain of \<open>if\<close>s, each
  returning; after the last one the function ends and Python returns \<open>None\<close>, which
  is \<open>Inr None\<close> here. \<open>auto_mf_type\<close> and \<open>terms\<close> default to \<open>None\<close>.
\<close>

definition create_input_variable ::
  "string \<Rightarrow> string \<Rightarrow> bool \<Rightarrow> real \<Rightarrow> real \<Rightarrow> real \<Rightarrow> bool \<Rightarrow> string list \<Rightarrow>
   string option \<Rightarrow> mf_term list option \<Rightarrow> real \<Rightarrow> error + variable option" where
  "create_input_variable variable_name variable_description enable variable_minimum
       variable_maximum ratio lock_range variable_labels auto_mf_type terms overlap =
     (if auto_mf_type = None \<and> terms = None then Inl MissingTermSpecification
      else if auto_mf_type = None \<and> terms \<noteq> None then
        Inr (Some (InputVariable variable_name variable_description enable
                     variable_minimum variable_maximum lock_range (the terms)))
      else if auto_mf_type = Some ''triangular'' then
        (case create_triangular_mf variable_labels variable_minimum variable_maximum overlap of
           Inl e \<Rightarrow> Inl e
         | Inr mfs \<Rightarrow>
             Inr (Some (InputVariable variable_name variable_description enable
                          variable_minimum variable_maximum lock_range mfs)))
      else if auto_mf_type = Some ''gaussian'' then
        (case create_gaussian_mf variable_labels variable_minimum variable_maximum overlap of
           Inl e \<Rightarrow> Inl e
         | Inr mfs \<Rightarrow>
             Inr (Some (InputVariable variable_name variable_description enable
                          variable_minimum variable_maximum lock_range mfs)))
      else if auto_mf_type = Some ''trapezoid'' then
        (case create_trapezoid_mf variable_labels variable_minimum variable_maximum ratio
                overlap of
           Inl e \<Rightarrow> Inl e
         | Inr mfs \<Rightarrow>
             Inr (Some (InputVariable variable_name variable_description enable
                          variable_minimum variable_maximum lock_range mfs)))
      else Inr None)"

definition create_output_variable ::
  "string \<Rightarrow> string \<Rightarrow> bool \<Rightarrow> real \<Rightarrow> real \<Rightarrow> real \<Rightarrow> bool \<Rightarrow> operator option \<Rightarrow>
   operator option \<Rightarrow> string list \<Rightarrow> string option \<Rightarrow> mf_term list option \<Rightarrow> real \<Rightarrow>
   error + output_variable option" where
  "create_output_variable variable_name variable_description enable variable_minimum
       variable_maximum ratio lock_range aggregation defuzzifier variable_labels
       auto_mf_type terms overlap =
     (if auto_mf_type = None \<and> terms = None then Inl MissingTermSpecification
      else if auto_mf_type = None \<and> terms \<noteq> None then
        Inr (Some (OutputVariable variable_name variable_description enable
                     variable_minimum variable_maximum lock_range aggregation defuzzifier
                     (the terms)))
      else if auto_mf_type = Some ''triangular'' then
        (case create_triangular_mf variable_labels variable_minimum variable_maximum overlap of
           Inl e \<Rightarrow> Inl e
         | Inr mfs \<Rightarrow>
             Inr (Some (OutputVariable variable_name variable_description enable
                          variable_minimum variable_maximum lock_range aggregation
                          defuzzifier mfs)))
      else if auto_mf_type = Some ''gaussian'' then
        (case create_gaussian_mf variable_labels variable_minimum variable_maximum overlap of
           Inl e \<Rightarrow> Inl e
         | Inr mfs \<Rightarrow>
             Inr (Some (OutputVariable variable_name variable_description enable
                          variable_minimum variable_maximum lock_range aggregation
                          defuzzifier mfs)))
      else if auto_mf_type = Some ''trapezoid'' then
        (case create_trapezoid_mf variable_labels variable_minimum variable_maximum ratio
                overlap of
           Inl e \<Rightarrow> Inl e
         | Inr mfs \<Rightarrow>
             Inr (Some (OutputVariable variable_name variable_description enable
                          variable_minimum variable_maximum lock_range aggregation
                          defuzzifier mfs)))
      else Inr None)"

section \<open>The engine and the session\<close>

text \<open>
  A compiled rule keeps its text. A rule block is an object that the session and the
  engine may both refer to, and \<open>add_rules_from_list\<close> mutates it in place: rule
  blocks live in a store, addressed by their position, and \<open>self.rule_block\<close> and
  the entries of \<open>engine.rule_blocks\<close> are references into it (\<open>None\<close> is Python's
  \<open>None\<close>). A reference made by \<open>create_rule_block\<close> is a position of the store.
  Variables are held by value.
\<close>

datatype rule = Rule string

record rule_block =
  rb_name :: string
  rb_description :: string
  rb_enabled :: bool
  rb_conjunction :: "operator option"
  rb_disjunction :: "operator option"
  rb_implication :: "operator option"
  rb_activation :: "operator option"
  rb_rules :: "rule list"

record engine =
  eng_name :: string
  eng_description :: string
  input_variables :: "variable list"
  output_variables :: "output_variable list"
  rule_blocks :: "nat option list"

record fis =
  engine :: engine
  rule_block :: "nat option"
  fis_output :: "real option"
  store :: "rule_block list"

text \<open>
  \<open>FIS.__init__\<close>: a fresh engine, no rule block, output 0.0. The attribute
  \<open>self.output\<close> is the field \<open>fis_output\<close>.
\<close>

definition FIS_init :: "string \<Rightarrow> string \<Rightarrow> fis" where
  "FIS_init name description =
     \<lparr>engine = \<lparr>eng_name = name, eng_description = description, input_variables = [],
                 output_variables = [], rule_blocks = []\<rparr>,
      rule_block = None,
      fis_output = Some 0.0,
      store = []\<rparr>"

text \<open>
  \<open>fl.RuleBlock(...)\<close> copies the rules it is given, and takes \<open>None\<close> as no rule.
  \<open>create_rule_block\<close> allocates the new object and makes \<open>self.rule_block\<close> refer to it;
  \<open>add_rule_block\<close> appends that reference to the engine's list.
\<close>

definition RuleBlock ::
  "string \<Rightarrow> string \<Rightarrow> bool \<Rightarrow> operator option \<Rightarrow> operator option \<Rightarrow> operator option \<Rightarrow>
   operator option \<Rightarrow> rule list option \<Rightarrow> rule_block" where
  "RuleBlock name description enabled conjunction disjunction implication activation rules =
     \<lparr>rb_name = name, rb_description = description, rb_enabled = enabled,
      rb_conjunction = conjunction, rb_disjunction = disjunction,
      rb_implication = implication, rb_activation = activation,
      rb_rules = (case rules of None \<Rightarrow> [] | Some rs \<Rightarrow> rs)\<rparr>"

definition create_rule_block ::
  "string \<Rightarrow> string \<Rightarrow> bool \<Rightarrow> operator option \<Rightarrow> operator option \<Rightarrow> operator option \<Rightarrow>
   operator option \<Rightarrow> rule list option \<Rightarrow> fis \<Rightarrow> fis" where
  "create_rule_block rule_name rule_description enabled rule_conjunction rule_disjunction
       rule_implication rule_activation rules s =
     s\<lparr>store := store s @ [RuleBlock rule_name rule_description enabled rule_conjunction
                              rule_disjunction rule_implication rule_activation rules],
       rule_block := Some (length (store s))\<rparr>"

definition add_rule_block :: "fis \<Rightarrow> fis" where
  "add_rule_block s =
     s\<lparr>engine := (engine s)\<lparr>rule_blocks := rule_blocks (engine s) @ [rule_block s]\<rparr>\<rparr>"

text \<open>
  \<open>_is_valid_variable_name\<close> walks the variables already registered and answers
  \<open>False\<close> at the first one with the given name.
\<close>

fun is_valid_variable_name :: "string \<Rightarrow> 'a variable_scheme list \<Rightarrow> bool" where
  "is_valid_variable_name variable_name [] = True"
| "is_valid_variable_name variable_name (v # rest) =
     (if var_name v = variable_name then False
      else is_valid_variable_name variable_name rest)"

text \<open>
  The operations that can raise return the outcome together with the session as the
  exception leaves it. The argument defaults to \<open>None\<close>, on which \<open>variable.name\<close>
  raises \<open>AttributeError\<close>.
\<close>

definition add_input_variable :: "variable option \<Rightarrow> fis \<Rightarrow> (error + unit) \<times> fis" where
  "add_input_variable variable s =
     (case variable of
        None \<Rightarrow> (Inl AttributeError, s)
      | Some v \<Rightarrow>
          if \<not> is_valid_variable_name (var_name v) (input_variables (engine s))
          then (Inl DuplicateVariableName, s)
          else (Inr (),
                s\<lparr>engine := (engine s)\<lparr>input_variables :=
                                           input_variables (engine s) @ [v]\<rparr>\<rparr>))"

definition add_output_variable ::
  "output_variable option \<Rightarrow> fis \<Rightarrow> (error + unit) \<times> fis" where
  "add_output_variable variable s =
     (case variable of
        None \<Rightarrow> (Inl AttributeError, s)
      | Some v \<Rightarrow>
          if \<not> is_valid_variable_name (var_name v) (output_variables (engine s))
          then (Inl DuplicateVariableName, s)
          else (Inr (),
                s\<lparr>engine := (engine s)\<lparr>output_variables :=
                                           output_variables (engine s) @ [v]\<rparr>\<rparr>))"

text \<open>
  \<open>add_rules_from_list\<close>. \<open>fl.Rule.create\<close> belongs to fuzzylite and is a parameter:
  it compiles a rule text against the engine or raises. The source first assigns the
  empty list to the rules of the current block, then appends the compiled rules one
  by one. On \<open>self.rule_block = None\<close> the assignment raises \<open>AttributeError\<close>; on
  the default \<open>rule_list = None\<close> the \<open>for\<close> raises \<open>TypeError\<close>, after the clearing.
\<close>

definition set_rules :: "nat \<Rightarrow> rule list \<Rightarrow> fis \<Rightarrow> fis" where
  "set_rules a rs s = s\<lparr>store := (store s)[a := (store s ! a)\<lparr>rb_rules := rs\<rparr>]\<rparr>"

fun append_rules ::
  "(string \<Rightarrow> engine \<Rightarrow> error + rule) \<Rightarrow> nat \<Rightarrow> string list \<Rightarrow> fis \<Rightarrow> (error + unit) \<times> fis" where
  "append_rules Rule_create a [] s = (Inr (), s)"
| "append_rules Rule_create a (rule # rest) s =
     (case Rule_create rule (engine s) of
        Inl e \<Rightarrow> (Inl e, s)
      | Inr compiled \<Rightarrow>
          append_rules Rule_create a rest
            (set_rules a (rb_rules (store s ! a) @ [compiled]) s))"

definition add_rules_from_list ::
  "(string \<Rightarrow> engine \<Rightarrow> error + rule) \<Rightarrow> string list option \<Rightarrow> fis \<Rightarrow> (error + unit) \<times> fis" where
  "add_rules_from_list Rule_create rule_list s =
     (case rule_block s of
        None \<Rightarrow> (Inl AttributeError, s)
      | Some a \<Rightarrow>
          (let s1 = set_rules a [] s
           in case rule_list of
                None \<Rightarrow> (Inl TypeError, s1)
              | Some rules \<Rightarrow> append_rules Rule_create a rules s1))"

text \<open>
  \<open>inference\<close>. Two operations of fuzzylite are parameters. \<open>set_value v x\<close> is the
  variable that the assignment \<open>v.value = x\<close> leaves (\<open>value\<close> is a property of
  fuzzylite's variables, with a setter of its own). \<open>process\<close> is \<open>engine.process()\<close>:
  it reads the engine and the rule blocks and leaves a new engine, with or without an
  exception. \<open>engine.input_variable(name)\<close> is the first input variable with that
  name (it raises when there is none), and \<open>engine.output_variable(name)\<close> likewise.
  The loop runs \<open>i\<close> over \<open>range(len(inputs))\<close>; \<open>inputs_name[i]\<close> raises
  \<open>IndexError\<close> past the end of the names. \<open>output_name[0]\<close> raises \<open>IndexError\<close>
  when no output variable is registered.
\<close>

definition get_input_variable_names :: "fis \<Rightarrow> string list" where
  "get_input_variable_names s = map var_name (input_variables (engine s))"

definition get_output_variable_names :: "fis \<Rightarrow> string list" where
  "get_output_variable_names s = map var_name (output_variables (engine s))"

fun set_variable_value ::
  "(variable \<Rightarrow> real \<Rightarrow> variable) \<Rightarrow> string \<Rightarrow> real \<Rightarrow> variable list \<Rightarrow>
   variable list option" where
  "set_variable_value set_value name x [] = None"
| "set_variable_value set_value name x (v # rest) =
     (if var_name v = name then Some (set_value v x # rest)
      else map_option ((#) v) (set_variable_value set_value name x rest))"

fun bind_inputs ::
  "(variable \<Rightarrow> real \<Rightarrow> variable) \<Rightarrow> string list \<Rightarrow> nat \<Rightarrow> real list \<Rightarrow> engine \<Rightarrow>
   (error + unit) \<times> engine" where
  "bind_inputs set_value inputs_name i [] e = (Inr (), e)"
| "bind_inputs set_value inputs_name i (x # rest) e =
     (if length inputs_name \<le> i then (Inl IndexError, e)
      else case set_variable_value set_value (inputs_name ! i) x (input_variables e) of
             None \<Rightarrow> (Inl EngineError, e)
           | Some vs \<Rightarrow>
               bind_inputs set_value inputs_name (Suc i) rest (e\<lparr>input_variables := vs\<rparr>))"

definition inference ::
  "(variable \<Rightarrow> real \<Rightarrow> variable) \<Rightarrow>
   (engine \<Rightarrow> rule_block list \<Rightarrow> (error + unit) \<times> engine) \<Rightarrow> real list option \<Rightarrow> fis \<Rightarrow>
   (error + unit) \<times> fis" where
  "inference set_value process inputs s =
     (case inputs of
        None \<Rightarrow> (Inl TypeError, s)
      | Some xs \<Rightarrow>
          (let inputs_name = get_input_variable_names s
           in case bind_inputs set_value inputs_name 0 xs (engine s) of
                (Inl e, bound) \<Rightarrow> (Inl e, s\<lparr>engine := bound\<rparr>)
              | (Inr u, bound) \<Rightarrow>
                  (case process bound (store s) of
                     (Inl e, processed) \<Rightarrow> (Inl e, s\<lparr>engine := processed\<rparr>)
                   | (Inr u, processed) \<Rightarrow>
                       (let s2 = s\<lparr>engine := processed\<rparr>;
                            output_name = get_output_variable_names s2
                        in case output_name of
                             [] \<Rightarrow> (Inl IndexError, s2)
                           | first_name # others \<Rightarrow>
                               (case find (\<lambda>v. var_name v = first_name)
                                       (output_variables processed) of
                                  None \<Rightarrow> (Inl EngineError, s2)
                                | Some v \<Rightarrow> (Inr (), s2\<lparr>fis_output := var_value v\<rparr>))))))"

text \<open>
  Sequences of calls to \<open>create_rule_block\<close> and \<open>add_rule_block\<close>, run from left to
  right.
\<close>

datatype command =
    Create_rule_block string string bool "operator option" "operator option"
      "operator option" "operator option" "rule list option"
  | Add_rule_block

fun step_command :: "command \<Rightarrow> fis \<Rightarrow> fis" where
  "step_command (Create_rule_block rule_name rule_description enabled rule_conjunction
       rule_disjunction rule_implication rule_activation rules) s =
     create_rule_block rule_name rule_description enabled rule_conjunction rule_disjunction
       rule_implication rule_activation rules s"
| "step_command Add_rule_block s = add_rule_block s"

fun run_commands :: "command list \<Rightarrow> fis \<Rightarrow> fis" where
  "run_commands [] s = s"
| "run_commands (c # cs) s = run_commands cs (step_command c s)"

fun is_add :: "command \<Rightarrow> bool" where
  "is_add Add_rule_block = True"
| "is_add (Create_rule_block rule_name rule_description enabled rule_conjunction
       rule_disjunction rule_implication rule_activation rules) = False"

text \<open>
  What positional binding leaves in the input variables: the first values of \<open>xs\<close>
  assigned to the first variables, in order, the other variables untouched.
\<close>

definition positional_binding ::
  "(variable \<Rightarrow> real \<Rightarrow> variable) \<Rightarrow> variable list \<Rightarrow> real list \<Rightarrow> variable list" where
  "positional_binding set_value vs xs =
     map (\<lambda>(v, x). set_value v x) (zip vs xs) @ drop (length xs) vs"

section \<open>Instances for concrete evaluation\<close>

text \<open>
  An instance of each fuzzylite parameter, and a session with the input variables
  \<open>a\<close> and \<open>b\<close> and the output variable \<open>o\<close>. \<open>example_Rule_create\<close> rejects the text
  \<open>bad\<close>; \<open>example_set_value\<close> stores the value as it is given;
  \<open>example_process\<close> succeeds and gives every output variable the value 1.
\<close>

definition example_set_value :: "variable \<Rightarrow> real \<Rightarrow> variable" where
  "example_set_value v x = v\<lparr>var_value := Some x\<rparr>"

definition example_Rule_create :: "string \<Rightarrow> engine \<Rightarrow> error + rule" where
  "example_Rule_create text e =
     (if text = ''bad'' then Inl RuleCompilationError else Inr (Rule text))"

definition example_process :: "engine \<Rightarrow> rule_block list \<Rightarrow> (error + unit) \<times> engine" where
  "example_process e blocks =
     (Inr (), e\<lparr>output_variables :=
                  map (\<lambda>v. v\<lparr>var_value := Some 1\<rparr>) (output_variables e)\<rparr>)"

definition example_session :: fis where
  "example_session =
     snd (add_output_variable (Some (OutputVariable ''o'' '''' True 0 1 False None None []))
       (snd (add_input_variable (Some (InputVariable ''b'' '''' True 0 1 False []))
         (snd (add_input_variable (Some (InputVariable ''a'' '''' True 0 1 False []))
           (FIS_init ''My FIS'' ''Fuzzy Inference System''))))))"

definition example_rule_session :: fis where
  "example_rule_session =
     create_rule_block '''' '''' True None None None None (Some [Rule ''old''])
       (FIS_init ''My FIS'' ''Fuzzy Inference System'')"

section \<open>The loops, index by index\<close>

text \<open>
  The term at position \<open>j\<close> of a synthesized list is the loop body at index \<open>j\<close>.
\<close>

lemma triangular_loop_length:
  "length (triangular_loop n minimum maximum step overlap i labels) = length labels"
  by (induction labels arbitrary: i) simp_all

lemma triangular_loop_nth:
  "j < length labels \<Longrightarrow>
   triangular_loop n minimum maximum step overlap i labels ! j =
     triangular_body n minimum maximum step overlap (i + j) (labels ! j)"
proof (induction labels arbitrary: i j)
  case Nil
  then show ?case by simp
next
  case (Cons l ls)
  then show ?case by (cases j) simp_all
qed

lemma gaussian_loop_length:
  "length (gaussian_loop n minimum maximum step overlap i labels) = length labels"
  by (induction labels arbitrary: i) simp_all

lemma gaussian_loop_nth:
  "j < length labels \<Longrightarrow>
   gaussian_loop n minimum maximum step overlap i labels ! j =
     gaussian_body n minimum maximum step overlap (i + j) (labels ! j)"
proof (induction labels arbitrary: i j)
  case Nil
  then show ?case by simp
next
  case (Cons l ls)
  then show ?case by (cases j) simp_all
qed

lemma trapezoid_loop_length:
  "length (trapezoid_loop n minimum maximum step ratio overlap i labels) = length labels"
  by (induction labels arbitrary: i) simp_all

lemma trapezoid_loop_nth:
  "j < length labels \<Longrightarrow>
   trapezoid_loop n minimum maximum step ratio overlap i labels ! j =
     trapezoid_body n minimum maximum step ratio overlap (i + j) (labels ! j)"
proof (induction labels arbitrary: i j)
  case Nil
  then show ?case by simp
next
  case (Cons l ls)
  then show ?case by (cases j) simp_all
qed

section \<open>The partition of the unit interval into three triangles\<close>

text \<open>
  Claim C3. The triangular synthesizer on the labels low, average, high over the
  universe from 0 to 1 with overlap 0 returns exactly low = (0, 0, 1/3),
  average = (1/3, 1/2, 2/3), high = (2/3, 1, 1): each right foot is the left foot of
  the next term and the interior peak is the midpoint of its feet.
\<close>

theorem triangular_partition_three:
  "create_triangular_mf [''low'', ''average'', ''high''] 0 1 0 =
     Inr [Triangle ''low'' 0 0 (1/3),
          Triangle ''average'' (1/3) (1/2) (2/3),
          Triangle ''high'' (2/3) 1 1]"
  by (simp add: create_triangular_mf_def triangular_body_def Let_def)

section \<open>Monotone parameter tuples\<close>

text \<open>
  Every triangular term is non-decreasing, and so is every trapezoid term that is not
  built by the branch for the last label.
\<close>

lemma triangular_body_nondecreasing:
  assumes "0 \<le> step" "0 \<le> overlap" "maximum = minimum + step * real n" "i < n"
  shows "nondecreasing (triangular_body n minimum maximum step overlap i label)"
proof -
  have m: "step * x \<le> step * y" if "x \<le> y" for x y
    using that assms(1) by (rule mult_left_mono)
  have 1: "minimum \<le> minimum + step * (1 + overlap)"
    using m [of 0 "1 + overlap"] assms(2) by simp
  have 2: "minimum + step * (real i - overlap) \<le> minimum + step * real n"
    using m [of "real i - overlap" "real n"] assms(2,4) by simp
  have 3: "minimum + step * (real i + 0 - overlap) \<le> minimum + step * (real i + 1 + overlap)"
    using m [of "real i + 0 - overlap" "real i + 1 + overlap"] assms(2) by simp
  have 4: "step * (real n - 1 - overlap) \<le> step * real n"
    using m [of "real n - 1 - overlap" "real n"] assms(2) by simp
  show ?thesis
    using 1 2 3 4 assms(3) by (simp add: triangular_body_def Let_def)
qed


lemma triangular_terms_nondecreasing:
  assumes "minimum < maximum" and "0 \<le> overlap"
    and "create_triangular_mf labels minimum maximum overlap = Inr ts"
  shows "list_all nondecreasing ts"
proof -
  define n where "n = length labels"
  define step where "step = (maximum - minimum) / real n"
  have ne: "labels \<noteq> []"
    using assms(3) by (auto simp: create_triangular_mf_def Let_def)
  have n_pos: "0 < n" using ne by (simp add: n_def)
  have step_pos: "0 \<le> step" using assms(1) n_pos by (simp add: step_def)
  have range: "maximum = minimum + step * real n"
    using n_pos by (simp add: step_def)
  have ts: "ts = triangular_loop n minimum maximum step overlap 0 labels"
    using assms(3) ne by (simp add: create_triangular_mf_def n_def step_def Let_def)
  have "nondecreasing (ts ! j)" if "j < length ts" for j
  proof -
    from that have j: "j < length labels"
      by (simp add: ts triangular_loop_length)
    then have "j < n" by (simp add: n_def)
    from triangular_body_nondecreasing [OF step_pos assms(2) range this]
    show ?thesis
      using triangular_loop_nth [OF j, of n minimum maximum step overlap 0]
      by (simp add: ts)
  qed
  then show ?thesis
    by (simp add: list_all_length)
qed

lemma trapezoid_body_nondecreasing:
  assumes "0 \<le> step" and "0 \<le> overlap" and "0 \<le> ratio" and "ratio \<le> 1"
    and "i = 0 \<or> i \<noteq> n - 1"
  shows "nondecreasing (trapezoid_body n minimum maximum step ratio overlap i label)"
proof -
  define D where "D = step * (1 + overlap)"
  define a where "a = minimum + step * (real i + 0 - overlap)"
  define d where "d = minimum + step * (real i + 1 + overlap)"
  have D: "0 \<le> D" using assms(1,2) by (simp add: D_def)
  have rD: "0 \<le> ratio * D" "ratio * D \<le> D"
    using D assms(3,4) by (simp_all add: mult_left_le_one_le)
  have "step * (real i + 0 - overlap) \<le> step * (real i + 1 + overlap)"
    using assms(1,2) by (intro mult_left_mono) simp_all
  then have W: "0 \<le> d - a" by (simp add: a_def d_def)
  have rW: "0 \<le> ratio * (d - a)" "ratio * (d - a) \<le> d - a"
    using W assms(3,4) by (simp_all add: mult_left_le_one_le)
  show ?thesis
  proof (cases "i = 0")
    case True
    have "minimum + step * (1 + overlap) - minimum = D" by (simp add: D_def)
    then show ?thesis
      using True rD by (simp add: trapezoid_body_def Let_def D_def [symmetric])
  next
    case False
    with assms(5) have "i \<noteq> n - 1" by simp
    moreover define r where "r = ratio * (d - a)"
    moreover have r: "0 \<le> r" "r \<le> d - a"
      using rW by (simp_all add: r_def)
    moreover have "a \<le> (d + a) * 0.5 - r * 0.5"
      using r by (simp add: field_simps)
    moreover have "(d + a) * 0.5 - r * 0.5 \<le> (d + a) * 0.5 + r * 0.5"
      using r by (simp add: field_simps)
    moreover have "(d + a) * 0.5 + r * 0.5 \<le> d"
      using r by (simp add: field_simps)
    ultimately show ?thesis
      using False
      by (simp only: trapezoid_body_def Let_def a_def [symmetric] d_def [symmetric]
            r_def [symmetric] if_False nondecreasing.simps simp_thms)
  qed
qed

text \<open>
  Claim C2 asks the same of the last trapezoid: a \<open>\<le>\<close> b \<open>\<le>\<close> c \<open>\<le>\<close> d. The branch for
  the last label computes \<open>b = (a + d) * ratio\<close>, which is not anchored to the
  universe: on the labels low, average, high over the universe from 0 to 1 with ratio
  1/4 and overlap 0 the term high is (2/3, 5/12, 1, 1), and 5/12 lies left of the left
  foot 2/3.
\<close>

theorem trapezoid_last_label_decreases:
  "create_trapezoid_mf [''low'', ''average'', ''high''] 0 1 (1/4) 0 =
     Inr [Trapezoid ''low'' 0 0 (1/12) (1/3),
          Trapezoid ''average'' (1/3) (11/24) (13/24) (2/3),
          Trapezoid ''high'' (2/3) (5/12) 1 1] \<and>
   \<not> nondecreasing (Trapezoid ''high'' (2/3) (5/12) 1 1)"
  by (simp add: create_trapezoid_mf_def trapezoid_body_def Let_def)

section \<open>The Gaussian approximation\<close>

text \<open>
  Claim C6 as stated, at a single label: the label is the last one, and the claim gives
  it the universe maximum as mean and a positive \<open>std_dev\<close>. The loop tests \<open>i == 0\<close>
  first, so the only label of a sequence of one is built as the first label: mean 0
  (the minimum) and \<open>std_dev\<close> -1/3 over the universe from 0 to 1.
\<close>

theorem gaussian_single_label_counterexample:
  "create_gaussian_mf [''only''] 0 1 0 = Inr [Gaussian ''only'' 0 (- (1 / 3))]"
  by (simp add: create_gaussian_mf_def gaussian_body_def Let_def)

text \<open>
  Claim C6, amended: for minimum < maximum, overlap \<open>\<ge>\<close> 0 and every index \<open>i\<close> of the
  labels, both synthesizers return, and the Gaussian term at \<open>i\<close> has as mean the peak
  of the triangular term at \<open>i\<close>. At index 0 the mean is the minimum and \<open>std_dev\<close> is
  (mean - right foot) / 3 = -(1 + overlap) * step / 3, negative. At the last index of
  a sequence of at least two labels the mean is the maximum and \<open>std_dev\<close> is
  (mean - left foot) / 3, positive. At every other index the mean is the midpoint of
  the two feet and \<open>std_dev\<close> is (mean - right foot) / 3, negative.
\<close>

theorem gaussian_mean_and_std_dev:
  assumes "minimum < maximum" and "0 \<le> overlap" and "i < length labels"
  shows "let step = (maximum - minimum) / real (length labels);
             a = minimum + step * (real i - overlap);
             c = minimum + step * (real i + 1 + overlap)
         in \<exists>gs ts.
              create_gaussian_mf labels minimum maximum overlap = Inr gs \<and>
              create_triangular_mf labels minimum maximum overlap = Inr ts \<and>
              length gs = length labels \<and> length ts = length labels \<and>
              (if i = 0 then
                 ts ! i = Triangle (labels ! i) minimum minimum (minimum + step * (1 + overlap)) \<and>
                 gs ! i = Gaussian (labels ! i) minimum (- (1 + overlap) * step / 3) \<and>
                 - (1 + overlap) * step / 3 < 0
               else if i = length labels - 1 then
                 ts ! i = Triangle (labels ! i) a maximum maximum \<and>
                 gs ! i = Gaussian (labels ! i) maximum ((maximum - a) / 3) \<and>
                 0 < (maximum - a) / 3
               else
                 ts ! i = Triangle (labels ! i) a ((a + c) / 2) c \<and>
                 gs ! i = Gaussian (labels ! i) ((a + c) / 2) (((a + c) / 2 - c) / 3) \<and>
                 ((a + c) / 2 - c) / 3 < 0)"
proof -
  define n where "n = length labels"
  define step where "step = (maximum - minimum) / real n"
  define a where "a = minimum + step * (real i - overlap)"
  define c where "c = minimum + step * (real i + 1 + overlap)"
  have ne: "labels \<noteq> []" using assms(3) by auto
  have n_pos: "0 < n" using ne by (simp add: n_def)
  have step_pos: "0 < step" using assms(1) n_pos by (simp add: step_def)
  have range: "maximum = minimum + step * real n"
    using n_pos by (simp add: step_def)
  have g: "create_gaussian_mf labels minimum maximum overlap =
             Inr (gaussian_loop n minimum maximum step overlap 0 labels)"
    using ne by (simp add: create_gaussian_mf_def n_def step_def Let_def)
  have t: "create_triangular_mf labels minimum maximum overlap =
             Inr (triangular_loop n minimum maximum step overlap 0 labels)"
    using ne by (simp add: create_triangular_mf_def n_def step_def Let_def)
  have gi: "gaussian_loop n minimum maximum step overlap 0 labels ! i =
              gaussian_body n minimum maximum step overlap i (labels ! i)"
    using gaussian_loop_nth [OF assms(3), of n minimum maximum step overlap 0] by simp
  have ti: "triangular_loop n minimum maximum step overlap 0 labels ! i =
              triangular_body n minimum maximum step overlap i (labels ! i)"
    using triangular_loop_nth [OF assms(3), of n minimum maximum step overlap 0] by simp
  have first: "0 < step * (1 + overlap)"
    using step_pos assms(2) by simp
  have inner: "0 < step * (1 + 2 * overlap)"
    using step_pos assms(2) by simp
  have body:
    "if i = 0 then
       triangular_body n minimum maximum step overlap i (labels ! i) =
         Triangle (labels ! i) minimum minimum (minimum + step * (1 + overlap)) \<and>
       gaussian_body n minimum maximum step overlap i (labels ! i) =
         Gaussian (labels ! i) minimum (- (1 + overlap) * step / 3) \<and>
       - (1 + overlap) * step / 3 < 0
     else if i = n - 1 then
       triangular_body n minimum maximum step overlap i (labels ! i) =
         Triangle (labels ! i) a maximum maximum \<and>
       gaussian_body n minimum maximum step overlap i (labels ! i) =
         Gaussian (labels ! i) maximum ((maximum - a) / 3) \<and>
       0 < (maximum - a) / 3
     else
       triangular_body n minimum maximum step overlap i (labels ! i) =
         Triangle (labels ! i) a ((a + c) / 2) c \<and>
       gaussian_body n minimum maximum step overlap i (labels ! i) =
         Gaussian (labels ! i) ((a + c) / 2) (((a + c) / 2 - c) / 3) \<and>
       ((a + c) / 2 - c) / 3 < 0"
  proof (cases "i = 0")
    case True
    have "- (1 + overlap) * step / 3 < 0"
      using first by (simp add: algebra_simps)
    moreover have "(minimum - (minimum + step * (1 + overlap))) / 3 =
                     - (1 + overlap) * step / 3"
      by (simp add: algebra_simps)
    ultimately show ?thesis
      using True by (simp add: gaussian_body_def triangular_body_def Let_def)
  next
    case False
    show ?thesis
    proof (cases "i = n - 1")
      case True
      with False have "real n = real i + 1" by simp
      then have "maximum - a = step * (1 + overlap)"
        using range by (simp add: a_def algebra_simps)
      then have "0 < (maximum - a) / 3"
        using first by simp
      then show ?thesis
        using True False
        by (simp add: gaussian_body_def triangular_body_def Let_def a_def)
    next
      case last: False
      have "(a + c) / 2 - c = - (step * (1 + 2 * overlap)) / 2"
        by (simp add: a_def c_def algebra_simps)
      then have "((a + c) / 2 - c) / 3 < 0"
        using inner by simp
      moreover have "0.5 * (c + a) = (a + c) / 2"
        by simp
      ultimately show ?thesis
        using last False
        by (simp add: gaussian_body_def triangular_body_def Let_def
              a_def [symmetric] c_def [symmetric])
    qed
  qed
  show ?thesis
    unfolding Let_def n_def [symmetric] step_def [symmetric] a_def [symmetric] c_def [symmetric]
    using body
    by (simp only: g t gi [symmetric] ti [symmetric] gaussian_loop_length
          triangular_loop_length n_def [symmetric] sum.inject simp_thms ex_simps
          split: if_splits)
qed

theorem gaussian_mean_and_std_dev_witness:
  "(0::real) < 1 \<and> (0::real) \<le> 0 \<and> (1::nat) < length [''low'', ''average'', ''high''] \<and>
   (\<exists>gs ts.
      create_gaussian_mf [''low'', ''average'', ''high''] 0 1 0 = Inr gs \<and>
      create_triangular_mf [''low'', ''average'', ''high''] 0 1 0 = Inr ts \<and>
      ts ! 1 = Triangle ''average'' (1/3) (1/2) (2/3) \<and>
      gs ! 1 = Gaussian ''average'' (1/2) (- (1/18)))"
proof -
  have h1: "(0::real) < 1" by simp
  have h2: "(0::real) \<le> 0" by simp
  have h3: "(1::nat) < length [''low'', ''average'', ''high'']" by simp
  show ?thesis
    using gaussian_mean_and_std_dev [OF h1 h2 h3]
    by (auto simp add: Let_def)
qed

section \<open>Explicit terms and the shape kind\<close>

text \<open>
  Claim C1 as stated, at a call with both a shape kind and explicit terms: the
  variable returned carries the three synthesized triangles, not the term supplied.
\<close>

theorem create_input_variable_both_counterexample:
  "create_input_variable ''x'' '''' True 0 1 (1/2) False [''low'', ''average'', ''high'']
       (Some ''triangular'') (Some [Triangle ''mine'' 0 (1/2) 1]) 0 =
     Inr (Some (InputVariable ''x'' '''' True 0 1 False
                  [Triangle ''low'' 0 0 (1/3),
                   Triangle ''average'' (1/3) (1/2) (2/3),
                   Triangle ''high'' (2/3) 1 1]))"
  by (simp add: create_input_variable_def create_triangular_mf_def triangular_body_def Let_def)

text \<open>
  Claim C1, amended: the variable carries the explicit terms verbatim when no shape
  kind is given; when a shape kind is given, the explicit terms are ignored, and the
  call returns what the same call without terms returns. Both hold for
  \<open>create_input_variable\<close> and for \<open>create_output_variable\<close>.
\<close>

theorem create_variable_terms_precedence:
  "create_input_variable variable_name variable_description enable variable_minimum
       variable_maximum ratio lock_range variable_labels None (Some ts) overlap =
     Inr (Some (InputVariable variable_name variable_description enable variable_minimum
                  variable_maximum lock_range ts)) \<and>
   create_output_variable variable_name variable_description enable variable_minimum
       variable_maximum ratio lock_range aggregation defuzzifier variable_labels None
       (Some ts) overlap =
     Inr (Some (OutputVariable variable_name variable_description enable variable_minimum
                  variable_maximum lock_range aggregation defuzzifier ts)) \<and>
   create_input_variable variable_name variable_description enable variable_minimum
       variable_maximum ratio lock_range variable_labels (Some kind) (Some ts) overlap =
     create_input_variable variable_name variable_description enable variable_minimum
       variable_maximum ratio lock_range variable_labels (Some kind) None overlap \<and>
   create_output_variable variable_name variable_description enable variable_minimum
       variable_maximum ratio lock_range aggregation defuzzifier variable_labels (Some kind)
       (Some ts) overlap =
     create_output_variable variable_name variable_description enable variable_minimum
       variable_maximum ratio lock_range aggregation defuzzifier variable_labels (Some kind)
       None overlap"
  by (simp add: create_input_variable_def create_output_variable_def)

text \<open>
  Claim C8 as stated, at the shape kind \<open>bell\<close>: no error is raised, the call completes
  and returns \<open>None\<close>.
\<close>

theorem unsupported_shape_counterexample:
  "create_input_variable ''x'' '''' True 0 1 (1/2) False [''low'', ''average'', ''high'']
       (Some ''bell'') None 0 = Inr None"
  by (simp add: create_input_variable_def)

text \<open>
  Claim C8, amended: with a shape kind other than triangular, gaussian and trapezoid,
  \<open>create_input_variable\<close> and \<open>create_output_variable\<close> raise nothing and return
  \<open>None\<close>, whatever the other arguments are.
\<close>

theorem unsupported_shape_returns_None:
  assumes "kind \<noteq> ''triangular''" and "kind \<noteq> ''gaussian''" and "kind \<noteq> ''trapezoid''"
  shows "create_input_variable variable_name variable_description enable variable_minimum
           variable_maximum ratio lock_range variable_labels (Some kind) terms overlap =
         Inr None \<and>
         create_output_variable variable_name variable_description enable variable_minimum
           variable_maximum ratio lock_range aggregation defuzzifier variable_labels
           (Some kind) terms overlap =
         Inr None"
  using assms by (simp add: create_input_variable_def create_output_variable_def)

theorem unsupported_shape_returns_None_witness:
  "''bell'' \<noteq> ''triangular'' \<and> ''bell'' \<noteq> ''gaussian'' \<and> ''bell'' \<noteq> ''trapezoid'' \<and>
   create_input_variable ''x'' '''' True 0 1 (1/2) False [''low''] (Some ''bell'')
       (Some [Triangle ''mine'' 0 (1/2) 1]) 0 = Inr None \<and>
   create_output_variable ''x'' '''' True 0 1 (1/2) False None None [''low''] (Some ''bell'')
       (Some [Triangle ''mine'' 0 (1/2) 1]) 0 = Inr None"
proof -
  have h1: "''bell'' \<noteq> ''triangular''" by simp
  have h2: "''bell'' \<noteq> ''gaussian''" by simp
  have h3: "''bell'' \<noteq> ''trapezoid''" by simp
  show ?thesis
    using h1 h2 h3
      unsupported_shape_returns_None [OF h1 h2 h3,
        where variable_name = "''x''" and variable_description = "''''" and enable = True
          and variable_minimum = 0 and variable_maximum = 1 and ratio = "1/2"
          and lock_range = False and variable_labels = "[''low'']"
          and terms = "Some [Triangle ''mine'' 0 (1/2) 1]" and overlap = 0
          and aggregation = None and defuzzifier = None]
    by simp
qed

section \<open>Unique names within a variable set\<close>

lemma is_valid_variable_name_iff:
  "is_valid_variable_name variable_name vs = (variable_name \<notin> set (map var_name vs))"
  by (induction vs) auto

text \<open>
  Claim C7. \<open>add_input_variable\<close> raises the duplicate-name error exactly when the name
  of the given variable is the name of a registered input variable, and
  \<open>add_output_variable\<close> exactly when it is the name of a registered output variable;
  on that error the session is unchanged; otherwise the variable is appended to its
  own list. Each check reads its own list only, so one name can be in both.
\<close>

theorem add_variable_duplicate_name:
  "(fst (add_input_variable (Some v) s) = Inl DuplicateVariableName) =
     (var_name v \<in> set (map var_name (input_variables (engine s)))) \<and>
   (fst (add_output_variable (Some w) s) = Inl DuplicateVariableName) =
     (var_name w \<in> set (map var_name (output_variables (engine s)))) \<and>
   (var_name v \<in> set (map var_name (input_variables (engine s))) \<longrightarrow>
      snd (add_input_variable (Some v) s) = s) \<and>
   (var_name w \<in> set (map var_name (output_variables (engine s))) \<longrightarrow>
      snd (add_output_variable (Some w) s) = s) \<and>
   (var_name v \<notin> set (map var_name (input_variables (engine s))) \<longrightarrow>
      add_input_variable (Some v) s =
        (Inr (), s\<lparr>engine := (engine s)\<lparr>input_variables :=
                                          input_variables (engine s) @ [v]\<rparr>\<rparr>)) \<and>
   (var_name w \<notin> set (map var_name (output_variables (engine s))) \<longrightarrow>
      add_output_variable (Some w) s =
        (Inr (), s\<lparr>engine := (engine s)\<lparr>output_variables :=
                                          output_variables (engine s) @ [w]\<rparr>\<rparr>))"
  by (simp add: add_input_variable_def add_output_variable_def is_valid_variable_name_iff)

theorem add_variable_duplicate_name_witness:
  "var_name (InputVariable ''a'' '''' True 0 1 False [])
     \<in> set (map var_name (input_variables (engine example_session))) \<and>
   add_input_variable (Some (InputVariable ''a'' '''' True 0 1 False [])) example_session =
     (Inl DuplicateVariableName, example_session) \<and>
   var_name (OutputVariable ''a'' '''' True 0 1 False None None [])
     \<notin> set (map var_name (output_variables (engine example_session))) \<and>
   fst (add_output_variable (Some (OutputVariable ''a'' '''' True 0 1 False None None []))
          example_session) = Inr () \<and>
   var_name (OutputVariable ''o'' '''' True 0 1 False None None [])
     \<in> set (map var_name (output_variables (engine example_session))) \<and>
   add_output_variable (Some (OutputVariable ''o'' '''' True 0 1 False None None []))
       example_session =
     (Inl DuplicateVariableName, example_session) \<and>
   var_name (InputVariable ''o'' '''' True 0 1 False [])
     \<notin> set (map var_name (input_variables (engine example_session))) \<and>
   fst (add_input_variable (Some (InputVariable ''o'' '''' True 0 1 False []))
          example_session) = Inr ()"
proof -
  have i: "map var_name (input_variables (engine example_session)) = [''a'', ''b'']"
    by (simp add: example_session_def add_input_variable_def add_output_variable_def
          FIS_init_def InputVariable_def OutputVariable_def)
  have o: "map var_name (output_variables (engine example_session)) = [''o'']"
    by (simp add: example_session_def add_input_variable_def add_output_variable_def
          FIS_init_def InputVariable_def OutputVariable_def)
  show ?thesis
    using
      add_variable_duplicate_name [where v = "InputVariable ''a'' '''' True 0 1 False []"
        and s = example_session
        and w = "OutputVariable ''a'' '''' True 0 1 False None None []"]
      add_variable_duplicate_name [where v = "InputVariable ''o'' '''' True 0 1 False []"
        and s = example_session
        and w = "OutputVariable ''o'' '''' True 0 1 False None None []"]
    by (simp add: i o InputVariable_def OutputVariable_def prod_eq_iff)
qed

section \<open>Rule blocks held by the engine\<close>

text \<open>
  Claim C9 as stated, after create, add, create, add: the engine holds two rule
  blocks, the one named first and the one named second.
\<close>

theorem two_rule_blocks_counterexample:
  "rule_blocks (engine (run_commands
       [Create_rule_block ''first'' '''' True None None None None None, Add_rule_block,
        Create_rule_block ''second'' '''' True None None None None None, Add_rule_block]
       (FIS_init ''My FIS'' ''Fuzzy Inference System''))) = [Some 0, Some 1] \<and>
   map rb_name (store (run_commands
       [Create_rule_block ''first'' '''' True None None None None None, Add_rule_block,
        Create_rule_block ''second'' '''' True None None None None None, Add_rule_block]
       (FIS_init ''My FIS'' ''Fuzzy Inference System''))) = [''first'', ''second'']"
  by (simp add: create_rule_block_def add_rule_block_def FIS_init_def RuleBlock_def)

text \<open>
  Claim C9, amended: the session has one slot for its current rule block, and the
  engine's list of rule blocks gains one entry at every call of \<open>add_rule_block\<close>:
  after any sequence of \<open>create_rule_block\<close> and \<open>add_rule_block\<close> calls it holds as
  many entries more as the sequence has \<open>add_rule_block\<close> calls.
\<close>

theorem rule_blocks_count_add_calls:
  "length (rule_blocks (engine (run_commands cs s))) =
     length (rule_blocks (engine s)) + length (filter is_add cs)"
proof (induction cs arbitrary: s)
  case Nil
  then show ?case by simp
next
  case (Cons c cs)
  then show ?case
    by (cases c) (simp_all add: create_rule_block_def add_rule_block_def)
qed

section \<open>Replacing the rule list\<close>

lemma engine_set_rules: "engine (set_rules a rs s) = engine s"
  by (simp add: set_rules_def)

lemma rule_block_set_rules: "rule_block (set_rules a rs s) = rule_block s"
  by (simp add: set_rules_def)

lemma length_store_set_rules: "length (store (set_rules a rs s)) = length (store s)"
  by (simp add: set_rules_def)

lemma rules_set_rules:
  "a < length (store s) \<Longrightarrow> rb_rules (store (set_rules a rs s) ! a) = rs"
  by (simp add: set_rules_def)

lemma set_rules_twice:
  "a < length (store s) \<Longrightarrow> set_rules a rs' (set_rules a rs s) = set_rules a rs' s"
  by (simp add: set_rules_def)

lemma set_rules_same: "set_rules a (rb_rules (store s ! a)) s = s"
  by (simp add: set_rules_def)

lemma append_rules_prefix:
  assumes "a < length (store s)"
    and "map (\<lambda>r. Rule_create r (engine s)) pre = map Inr compiled"
  shows "append_rules Rule_create a (pre @ rest) s =
           append_rules Rule_create a rest
             (set_rules a (rb_rules (store s ! a) @ compiled) s)"
  using assms
proof (induction pre arbitrary: s compiled)
  case Nil
  then show ?case by (simp add: set_rules_same)
next
  case (Cons r pre)
  from Cons.prems(2) obtain c cs where compiled: "compiled = c # cs"
    and c: "Rule_create r (engine s) = Inr c"
    and cs: "map (\<lambda>r. Rule_create r (engine s)) pre = map Inr cs"
    by (cases compiled) auto
  let ?s = "set_rules a (rb_rules (store s ! a) @ [c]) s"
  have "append_rules Rule_create a ((r # pre) @ rest) s =
          append_rules Rule_create a (pre @ rest) ?s"
    using c by simp
  also have "\<dots> = append_rules Rule_create a rest
                     (set_rules a (rb_rules (store ?s ! a) @ cs) ?s)"
    using Cons.prems(1) cs
    by (intro Cons.IH) (simp_all add: length_store_set_rules engine_set_rules)
  also have "set_rules a (rb_rules (store ?s ! a) @ cs) ?s =
               set_rules a (rb_rules (store s ! a) @ compiled) s"
    using Cons.prems(1) by (simp add: rules_set_rules set_rules_twice compiled)
  finally show ?case .
qed

text \<open>
  Claim C4 as stated, on a rule block that holds the rule old, with the batch r1, bad,
  r3: the call fails at bad, and the rule list left in the block is the single rule
  r1, neither the old list nor the whole new one.
\<close>

theorem add_rules_partial_counterexample:
  "map rb_rules (store example_rule_session) = [[Rule ''old'']] \<and>
   fst (add_rules_from_list example_Rule_create (Some [''r1'', ''bad'', ''r3''])
          example_rule_session) = Inl RuleCompilationError \<and>
   map rb_rules (store (snd (add_rules_from_list example_Rule_create
          (Some [''r1'', ''bad'', ''r3'']) example_rule_session))) = [[Rule ''r1'']]"
  by (simp add: example_rule_session_def example_Rule_create_def add_rules_from_list_def
        create_rule_block_def FIS_init_def RuleBlock_def set_rules_def Let_def)

text \<open>
  Claim C4, amended: when the session has a rule block and the first rule text that
  fails to compile comes after the texts \<open>pre\<close>, the failure surfaces at once with the
  error of \<open>Rule.create\<close>, no later text is compiled, and the rule block is left with
  exactly the compiled rules of \<open>pre\<close>: the old rules are gone and the new list is cut
  before the failing text.
\<close>

theorem add_rules_from_list_failure:
  assumes "rule_block s = Some a" and "a < length (store s)"
    and "map (\<lambda>r. Rule_create r (engine s)) pre = map Inr compiled"
    and "Rule_create bad (engine s) = Inl e"
  shows "add_rules_from_list Rule_create (Some (pre @ bad # post)) s =
           (Inl e, set_rules a compiled s)"
proof -
  let ?s1 = "set_rules a [] s"
  have "append_rules Rule_create a (pre @ bad # post) ?s1 =
          append_rules Rule_create a (bad # post)
            (set_rules a (rb_rules (store ?s1 ! a) @ compiled) ?s1)"
    using assms(2,3)
    by (intro append_rules_prefix) (simp_all add: length_store_set_rules engine_set_rules)
  also have "set_rules a (rb_rules (store ?s1 ! a) @ compiled) ?s1 = set_rules a compiled s"
    using assms(2) by (simp add: rules_set_rules set_rules_twice)
  also have "append_rules Rule_create a (bad # post) (set_rules a compiled s) =
               (Inl e, set_rules a compiled s)"
    using assms(4) by (simp add: engine_set_rules)
  finally show ?thesis
    using assms(1) by (simp add: add_rules_from_list_def Let_def)
qed

theorem add_rules_from_list_failure_witness:
  "rule_block example_rule_session = Some 0 \<and>
   0 < length (store example_rule_session) \<and>
   map (\<lambda>r. example_Rule_create r (engine example_rule_session)) [''r1''] =
     map Inr [Rule ''r1''] \<and>
   example_Rule_create ''bad'' (engine example_rule_session) = Inl RuleCompilationError \<and>
   add_rules_from_list example_Rule_create (Some ([''r1''] @ ''bad'' # [''r3'']))
       example_rule_session =
     (Inl RuleCompilationError, set_rules 0 [Rule ''r1''] example_rule_session)"
proof -
  have h1: "rule_block example_rule_session = Some 0"
    by (simp add: example_rule_session_def create_rule_block_def FIS_init_def)
  have h2: "0 < length (store example_rule_session)"
    by (simp add: example_rule_session_def create_rule_block_def FIS_init_def)
  have h3: "map (\<lambda>r. example_Rule_create r (engine example_rule_session)) [''r1''] =
              map Inr [Rule ''r1'']"
    by (simp add: example_Rule_create_def)
  have h4: "example_Rule_create ''bad'' (engine example_rule_session) =
              Inl RuleCompilationError"
    by (simp add: example_Rule_create_def)
  show ?thesis
    using h1 h2 h3 h4
      add_rules_from_list_failure [where Rule_create = example_Rule_create
        and s = example_rule_session and a = 0 and pre = "[''r1'']"
        and compiled = "[Rule ''r1'']" and bad = "''bad''" and e = RuleCompilationError
        and post = "[''r3'']", OF h1 h2 h3 h4]
    by simp
qed

text \<open>When every text compiles, the rule block holds the compiled rules, in order.\<close>

lemma add_rules_from_list_success:
  assumes "rule_block s = Some a" and "a < length (store s)"
    and "map (\<lambda>r. Rule_create r (engine s)) rules = map Inr compiled"
  shows "add_rules_from_list Rule_create (Some rules) s = (Inr (), set_rules a compiled s)"
proof -
  let ?s1 = "set_rules a [] s"
  have "append_rules Rule_create a (rules @ []) ?s1 =
          append_rules Rule_create a []
            (set_rules a (rb_rules (store ?s1 ! a) @ compiled) ?s1)"
    using assms(2,3)
    by (intro append_rules_prefix) (simp_all add: length_store_set_rules engine_set_rules)
  also have "set_rules a (rb_rules (store ?s1 ! a) @ compiled) ?s1 = set_rules a compiled s"
    using assms(2) by (simp add: rules_set_rules set_rules_twice)
  finally show ?thesis
    using assms(1) by (simp add: add_rules_from_list_def Let_def)
qed

section \<open>Inference\<close>

text \<open>
  With distinct names, the lookup by the name of the variable at position \<open>i\<close> finds
  that variable, so the loop assigns position by position.
\<close>

lemma set_variable_value_nth:
  "distinct (map var_name vs) \<Longrightarrow> i < length vs \<Longrightarrow>
   set_variable_value set_value (var_name (vs ! i)) x vs =
     Some (vs[i := set_value (vs ! i) x])"
proof (induction vs arbitrary: i)
  case Nil
  then show ?case by simp
next
  case (Cons v vs)
  show ?case
  proof (cases i)
    case 0
    then show ?thesis by simp
  next
    case (Suc j)
    with Cons.prems have j: "j < length vs" and d: "distinct (map var_name vs)"
      and "var_name v \<notin> set (map var_name vs)"
      by simp_all
    then have "var_name v \<noteq> var_name (vs ! j)"
      by (metis length_map nth_map nth_mem)
    then show ?thesis
      using Suc Cons.IH [OF d j] by simp
  qed
qed

lemma positional_binding_Nil: "positional_binding set_value vs [] = vs"
  by (simp add: positional_binding_def)

lemma positional_binding_Cons:
  "positional_binding set_value (v # vs) (x # xs) =
     set_value v x # positional_binding set_value vs xs"
  by (simp add: positional_binding_def)

lemma positional_binding_no_variable: "positional_binding set_value [] xs = []"
  by (simp add: positional_binding_def)

lemma bind_inputs_positional:
  assumes "\<And>v x. var_name (set_value v x) = var_name v"
    and "distinct (map var_name (input_variables e))"
    and "inputs_name = map var_name (input_variables e)"
    and "i \<le> length (input_variables e)"
  shows "bind_inputs set_value inputs_name i xs e =
           (if i + length xs \<le> length (input_variables e) then Inr () else Inl IndexError,
            e\<lparr>input_variables :=
                take i (input_variables e) @
                positional_binding set_value (drop i (input_variables e)) xs\<rparr>)"
  using assms(2-4)
proof (induction xs arbitrary: i e)
  case Nil
  then show ?case by (simp add: positional_binding_Nil)
next
  case (Cons x xs)
  let ?vs = "input_variables e"
  show ?case
  proof (cases "i < length ?vs")
    case False
    with Cons.prems have "i = length ?vs" by simp
    then show ?thesis
      using Cons.prems(2) by (simp add: positional_binding_no_variable)
  next
    case True
    let ?v = "set_value (?vs ! i) x"
    let ?vs1 = "?vs[i := ?v]"
    let ?e1 = "e\<lparr>input_variables := ?vs1\<rparr>"
    have name: "inputs_name ! i = var_name (?vs ! i)"
      using True Cons.prems(2) by simp
    have set: "set_variable_value set_value (inputs_name ! i) x ?vs = Some ?vs1"
      unfolding name using Cons.prems(1) True by (rule set_variable_value_nth)
    have names1: "map var_name ?vs1 = map var_name ?vs"
      using True by (simp add: map_update list_update_same_conv assms(1))
    have step: "bind_inputs set_value inputs_name i (x # xs) e =
                  bind_inputs set_value inputs_name (Suc i) xs ?e1"
      using True Cons.prems(2) set by simp
    have ih: "bind_inputs set_value inputs_name (Suc i) xs ?e1 =
                (if Suc i + length xs \<le> length (input_variables ?e1) then Inr ()
                 else Inl IndexError,
                 ?e1\<lparr>input_variables :=
                       take (Suc i) (input_variables ?e1) @
                       positional_binding set_value (drop (Suc i) (input_variables ?e1)) xs\<rparr>)"
      using Cons.prems True names1 by (intro Cons.IH) simp_all
    have "take (Suc i) ?vs1 @ positional_binding set_value (drop (Suc i) ?vs1) xs =
            take i ?vs @ positional_binding set_value (drop i ?vs) (x # xs)"
    proof -
      have "take (Suc i) ?vs1 = take i ?vs @ [?v]"
        using True by (simp add: take_Suc_conv_app_nth)
      moreover have "drop (Suc i) ?vs1 = drop (Suc i) ?vs"
        by simp
      moreover have "drop i ?vs = ?vs ! i # drop (Suc i) ?vs"
        using True by (simp add: Cons_nth_drop_Suc)
      ultimately show ?thesis
        by (simp add: positional_binding_Cons)
    qed
    then show ?thesis
      using step ih by simp
  qed
qed

text \<open>
  Claim C5 as stated, on the session with the two input variables \<open>a\<close> and \<open>b\<close>. With
  one value no error is raised: \<open>a\<close> is bound and the evaluation pass runs. With three
  values the call fails with \<open>IndexError\<close>, after \<open>a\<close> and \<open>b\<close> have been bound.
\<close>

theorem inference_count_counterexample:
  "length (input_variables (engine example_session)) = 2 \<and>
   map var_value (input_variables (engine example_session)) = [None, None] \<and>
   fst (inference example_set_value example_process (Some [5]) example_session) = Inr () \<and>
   map var_value (input_variables (engine (snd
       (inference example_set_value example_process (Some [5]) example_session)))) =
     [Some 5, None] \<and>
   fis_output (snd (inference example_set_value example_process (Some [5]) example_session)) =
     Some 1 \<and>
   fst (inference example_set_value example_process (Some [5, 6, 7]) example_session) =
     Inl IndexError \<and>
   map var_value (input_variables (engine (snd
       (inference example_set_value example_process (Some [5, 6, 7]) example_session)))) =
     [Some 5, Some 6]"
  by (simp add: example_session_def example_set_value_def example_process_def inference_def
        add_input_variable_def add_output_variable_def FIS_init_def InputVariable_def
        OutputVariable_def get_input_variable_names_def get_output_variable_names_def
        Let_def)

text \<open>
  Claim C5, amended: \<open>inference\<close> does not compare the number of values with the number
  of input variables. On a session whose input variables have distinct names, and
  with an assignment that keeps the name of the variable: with more values than input
  variables the call fails with \<open>IndexError\<close> only after every input variable has been
  assigned the value at its position, and no evaluation pass runs; with no more values
  than input variables no error is raised for the count: the first variables are
  assigned, the evaluation pass runs on that engine, and when it succeeds and an
  output variable is registered the call succeeds.
\<close>

theorem inference_without_count_check:
  assumes "\<And>v x. var_name (set_value v x) = var_name v"
    and "distinct (map var_name (input_variables (engine s)))"
  shows "(length (input_variables (engine s)) < length xs \<longrightarrow>
            inference set_value process (Some xs) s =
              (Inl IndexError,
               s\<lparr>engine := (engine s)\<lparr>input_variables :=
                    positional_binding set_value (input_variables (engine s)) xs\<rparr>\<rparr>)) \<and>
         (length xs \<le> length (input_variables (engine s)) \<longrightarrow>
          process ((engine s)\<lparr>input_variables :=
                     positional_binding set_value (input_variables (engine s)) xs\<rparr>)
              (store s) =
            (Inr (), processed) \<longrightarrow>
          output_variables processed = ov # ovs \<longrightarrow>
            inference set_value process (Some xs) s =
              (Inr (), s\<lparr>engine := processed, fis_output := var_value ov\<rparr>))"
proof -
  have b: "bind_inputs set_value (get_input_variable_names s) 0 xs (engine s) =
             (if length xs \<le> length (input_variables (engine s)) then Inr ()
              else Inl IndexError,
              (engine s)\<lparr>input_variables :=
                 positional_binding set_value (input_variables (engine s)) xs\<rparr>)"
    using bind_inputs_positional [of set_value "engine s" "get_input_variable_names s" 0 xs]
      assms
    by (simp add: get_input_variable_names_def)
  show ?thesis
    by (simp add: inference_def Let_def b get_output_variable_names_def)
qed

theorem inference_without_count_check_witness:
  "(\<forall>v x. var_name (example_set_value v x) = var_name v) \<and>
   distinct (map var_name (input_variables (engine example_session))) \<and>
   length (input_variables (engine example_session)) < length [5, 6, 7 :: real] \<and>
   fst (inference example_set_value example_process (Some [5, 6, 7]) example_session) =
     Inl IndexError \<and>
   length [5 :: real] \<le> length (input_variables (engine example_session)) \<and>
   fst (inference example_set_value example_process (Some [5]) example_session) = Inr ()"
proof -
  have i: "input_variables (engine example_session) =
             [InputVariable ''a'' '''' True 0 1 False [],
              InputVariable ''b'' '''' True 0 1 False []]"
    by (simp add: example_session_def add_input_variable_def add_output_variable_def
          FIS_init_def InputVariable_def OutputVariable_def)
  have o: "output_variables (engine example_session) =
             [OutputVariable ''o'' '''' True 0 1 False None None []]"
    by (simp add: example_session_def add_input_variable_def add_output_variable_def
          FIS_init_def InputVariable_def OutputVariable_def)
  have n: "var_name (example_set_value v x) = var_name v" for v x
    by (simp add: example_set_value_def)
  have d: "distinct (map var_name (input_variables (engine example_session)))"
    by (simp add: i InputVariable_def)
  show ?thesis
    using n d
      inference_without_count_check [OF n d, where xs = "[5, 6, 7]"
        and process = example_process]
      inference_without_count_check [OF n d, where xs = "[5]" and process = example_process
        and processed = "snd (example_process ((engine example_session)\<lparr>input_variables :=
                positional_binding example_set_value
                  (input_variables (engine example_session)) [5]\<rparr>)
              (store example_session))"
        and ov = "(OutputVariable ''o'' '''' True 0 1 False None None [])\<lparr>var_value := Some 1\<rparr>"
        and ovs = "[]"]
    by (simp add: i o example_process_def)
qed

text \<open>
  Claim C10. \<open>inference\<close> returns nothing: its outcome on success is the unit value.
  A new session has the output 0.0, and after every successful call the output is
  the value of the first registered output variable.
\<close>

theorem inference_output:
  "fis_output (FIS_init name description) = Some 0 \<and>
   (inference set_value process inputs s = (Inr u, s') \<longrightarrow>
      output_variables (engine s') \<noteq> [] \<and>
      fis_output s' = var_value (hd (output_variables (engine s'))))"
  by (auto simp add: FIS_init_def inference_def Let_def get_output_variable_names_def
        split: option.splits prod.splits sum.splits list.splits if_splits)

theorem inference_output_witness:
  "inference example_set_value example_process (Some [5, 6]) example_session =
     (Inr (), snd (inference example_set_value example_process (Some [5, 6])
                     example_session)) \<and>
   output_variables (engine (snd (inference example_set_value example_process
       (Some [5, 6]) example_session))) \<noteq> [] \<and>
   fis_output (snd (inference example_set_value example_process (Some [5, 6])
       example_session)) = Some 1 \<and>
   fis_output (FIS_init ''My FIS'' ''Fuzzy Inference System'') = Some 0"
proof -
  have r: "inference example_set_value example_process (Some [5, 6]) example_session =
             (Inr (), snd (inference example_set_value example_process (Some [5, 6])
                             example_session))"
    by (simp add: example_session_def example_set_value_def example_process_def
          inference_def add_input_variable_def add_output_variable_def FIS_init_def
          InputVariable_def OutputVariable_def get_input_variable_names_def
          get_output_variable_names_def Let_def)
  have v: "var_value (hd (output_variables (engine (snd
             (inference example_set_value example_process (Some [5, 6])
                example_session))))) = Some 1"
    by (simp add: example_session_def example_set_value_def example_process_def
          inference_def add_input_variable_def add_output_variable_def FIS_init_def
          InputVariable_def OutputVariable_def get_input_variable_names_def
          get_output_variable_names_def Let_def)
  show ?thesis
    using r v
      inference_output [where name = "''My FIS''"
        and description = "''Fuzzy Inference System''" and set_value = example_set_value
        and process = example_process and inputs = "Some [5, 6]" and s = example_session
        and u = "()"
        and s' = "snd (inference example_set_value example_process (Some [5, 6])
                         example_session)"]
    by simp
qed

end
